theory Spec2Isabelle
  imports Complex_Main "HOL-Library.AList"
begin

section \<open>Python values\<close>

text \<open>
  The payloads are what \<^verbatim>\<open>response.json()\<close> returns and the tables are the
  dictionaries \<^verbatim>\<open>process_exchange_rates\<close> builds, so one type of Python values
  serves both. A dictionary is an association list in insertion order whose keys are
  pairwise different (a parsed JSON object has string keys only; the table built by the
  processor has the payload's date as its single top-level key, which may be any
  hashable value). Numbers are compared by value, as Python's \<^verbatim>\<open>==\<close> does for
  \<^verbatim>\<open>int\<close> and \<^verbatim>\<open>float\<close>.
\<close>

datatype pyval =
    PyNone
  | PyBool bool
  | PyNum real
  | PyStr string
  | PyList "pyval list"
  | PyDict "(pyval \<times> pyval) list"

text \<open>
  The exceptions the program raises or lets through. A \<^verbatim>\<open>ValueError\<close> carries one of
  the two messages of the source; a \<^verbatim>\<open>ConnectionError\<close> is built from the exception it
  replaces (its message embeds \<^verbatim>\<open>str(e)\<close>); \<^verbatim>\<open>ClientError\<close> stands for whatever
  the HTTP library raises.
\<close>

datatype reason = DaysOutOfRange | BadStatus int

datatype exn =
    ValueError reason
  | ConnectionError exn
  | TypeError
  | AttributeError
  | ClientError string

text \<open>Truth value of an object, as \<^verbatim>\<open>if data\<close> and \<^verbatim>\<open>not data\<close> test it.\<close>

fun truthy :: "pyval \<Rightarrow> bool" where
  "truthy PyNone = False"
| "truthy (PyBool b) = b"
| "truthy (PyNum x) = (x \<noteq> 0)"
| "truthy (PyStr s) = (s \<noteq> [])"
| "truthy (PyList xs) = (xs \<noteq> [])"
| "truthy (PyDict kvs) = (kvs \<noteq> [])"

text \<open>Lists and dictionaries cannot be dictionary keys.\<close>

fun hashable :: "pyval \<Rightarrow> bool" where
  "hashable (PyList xs) = False"
| "hashable (PyDict kvs) = False"
| "hashable v = True"

text \<open>
  \<^verbatim>\<open>obj.get(key, default)\<close>: only a dictionary has the method; on any other object the
  attribute lookup raises.
\<close>

fun dict_get :: "pyval \<Rightarrow> string \<Rightarrow> pyval \<Rightarrow> exn + pyval" where
  "dict_get (PyDict kvs) k dflt =
     (case map_of kvs (PyStr k) of None \<Rightarrow> Inr dflt | Some v \<Rightarrow> Inr v)"
| "dict_get v k dflt = Inl AttributeError"

text \<open>
  \<^verbatim>\<open>for x in obj\<close>: a list yields its elements, a dictionary its keys, a string
  its characters as one-character strings; nothing else is iterable.
\<close>

fun py_iter :: "pyval \<Rightarrow> exn + pyval list" where
  "py_iter (PyList xs) = Inr xs"
| "py_iter (PyDict kvs) = Inr (map fst kvs)"
| "py_iter (PyStr s) = Inr (map (\<lambda>c. PyStr [c]) s)"
| "py_iter v = Inl TypeError"

section \<open>ExchangeRateProcessor\<close>

text \<open>
  \<^verbatim>\<open>{currency: {} for currency in currencies}\<close>: each code is stored in turn, so a
  code listed twice keeps its first position.
\<close>

definition empty_rates :: "string list \<Rightarrow> (pyval \<times> pyval) list" where
  "empty_rates currencies =
     foldl (\<lambda>d currency. AList.update (PyStr currency) (PyDict []) d) [] currencies"

text \<open>
  The loop over the rate entries. \<open>table\<close> is \<^verbatim>\<open>processed_data[date]\<close>; the
  first \<^verbatim>\<open>rate.get\<close> raises when the entry is not a dictionary.
\<close>

fun rates_loop :: "string list \<Rightarrow> pyval list \<Rightarrow> (pyval \<times> pyval) list
    \<Rightarrow> exn + (pyval \<times> pyval) list" where
  "rates_loop currencies [] table = Inr table"
| "rates_loop currencies (rate # rates) table =
     (case dict_get rate ''currency'' PyNone of
        Inl e \<Rightarrow> Inl e
      | Inr currency \<Rightarrow>
          if currency \<in> set (map PyStr currencies) then
            (case dict_get rate ''saleRateNB'' PyNone of
               Inl e \<Rightarrow> Inl e
             | Inr sale \<Rightarrow>
                 (case dict_get rate ''purchaseRateNB'' PyNone of
                    Inl e \<Rightarrow> Inl e
                  | Inr purchase \<Rightarrow>
                      rates_loop currencies rates
                        (AList.update currency
                           (PyDict [(PyStr ''sale'', sale), (PyStr ''purchase'', purchase)])
                           table)))
          else rates_loop currencies rates table)"

definition process_exchange_rates :: "pyval \<Rightarrow> string list \<Rightarrow> exn + pyval" where
  "process_exchange_rates data currencies =
     (case dict_get data ''date'' PyNone of
        Inl e \<Rightarrow> Inl e
      | Inr date \<Rightarrow>
          (case dict_get data ''exchangeRate'' (PyList []) of
             Inl e \<Rightarrow> Inl e
           | Inr exchange_rates \<Rightarrow>
               if \<not> hashable date then Inl TypeError
               else
                 (case py_iter exchange_rates of
                    Inl e \<Rightarrow> Inl e
                  | Inr rates \<Rightarrow>
                      (case rates_loop currencies rates (empty_rates currencies) of
                         Inl e \<Rightarrow> Inl e
                       | Inr table \<Rightarrow> Inr (PyDict [(date, PyDict table)])))))"

section \<open>ExchangeRateFetcher\<close>

text \<open>
  What the server does with one request: either \<^verbatim>\<open>session.get\<close> raises, or a
  response arrives with a status and with what \<^verbatim>\<open>response.json()\<close> would return
  or raise.
\<close>

datatype reply = NoReply exn | Reply int "exn + pyval"

definition api_url :: "string \<Rightarrow> string" where
  "api_url date = ''https://api.privatbank.ua/p24api/exchange_rates?json&date='' @ date"

text \<open>The body of the \<^verbatim>\<open>try\<close> block.\<close>

definition request :: "reply \<Rightarrow> exn + pyval" where
  "request r =
     (case r of
        NoReply e \<Rightarrow> Inl e
      | Reply status body \<Rightarrow>
          if status = 200 then body else Inl (ValueError (BadStatus status)))"

text \<open>
  The \<^verbatim>\<open>except Exception\<close> clause encloses the whole body, the \<^verbatim>\<open>raise ValueError\<close>
  included.
\<close>

definition fetch_exchange_rate :: "(string \<Rightarrow> reply) \<Rightarrow> string \<Rightarrow> exn + pyval" where
  "fetch_exchange_rate session date =
     (case request (session (api_url date)) of
        Inl e \<Rightarrow> Inl (ConnectionError e)
      | Inr data \<Rightarrow> Inr data)"

section \<open>ExchangeRateApp\<close>

text \<open>
  The surroundings of one call: the day number that the \<open>i\<close>-th reading of
  \<^verbatim>\<open>datetime.now()\<close> gives, the formatting \<^verbatim>\<open>strftime("%d.%m.%Y")\<close> of a day number,
  and the reply of the server to the \<open>i\<close>-th request.
\<close>

record env =
  now :: "nat \<Rightarrow> int"
  strftime :: "int \<Rightarrow> string"
  session :: "nat \<Rightarrow> string \<Rightarrow> reply"

text \<open>
  What an observer of the call sees: the calls of the fetcher, the calls of the
  processor and the warnings printed, each warning with the date it names.
\<close>

datatype event = Fetch string | Process pyval | Print pyval

text \<open>
  \<^verbatim>\<open>asyncio.gather\<close> returns the results in the order of its arguments when every
  request succeeds. Otherwise it raises the exception of the request that fails first in
  time, which the program does not determine: every failure is a possible outcome.
\<close>

fun failures :: "(exn + 'a) list \<Rightarrow> exn list" where
  "failures [] = []"
| "failures (Inl e # rs) = e # failures rs"
| "failures (Inr x # rs) = failures rs"

fun results :: "(exn + 'a) list \<Rightarrow> 'a list" where
  "results [] = []"
| "results (Inl e # rs) = results rs"
| "results (Inr x # rs) = x # results rs"

definition gather :: "(exn + 'a) list \<Rightarrow> (exn + 'a list) list" where
  "gather rs = (if failures rs = [] then [Inr (results rs)] else map Inl (failures rs))"

text \<open>The test \<^verbatim>\<open>data and data.get("exchangeRate")\<close> of both loops.\<close>

definition has_rates :: "pyval \<Rightarrow> exn + bool" where
  "has_rates data =
     (if \<not> truthy data then Inr False
      else case dict_get data ''exchangeRate'' PyNone of
             Inl e \<Rightarrow> Inl e
           | Inr v \<Rightarrow> Inr (truthy v))"

text \<open>The list comprehension that builds \<^verbatim>\<open>processed_data\<close>.\<close>

fun process_all :: "string list \<Rightarrow> pyval list \<Rightarrow> event list \<times> (exn + pyval list)" where
  "process_all currencies [] = ([], Inr [])"
| "process_all currencies (data # raw_data) =
     (case has_rates data of
        Inl e \<Rightarrow> ([], Inl e)
      | Inr b \<Rightarrow>
          if b then
            (case process_exchange_rates data currencies of
               Inl e \<Rightarrow> ([Process data], Inl e)
             | Inr table \<Rightarrow>
                 (case process_all currencies raw_data of
                    (trace, Inl e) \<Rightarrow> (Process data # trace, Inl e)
                  | (trace, Inr tables) \<Rightarrow> (Process data # trace, Inr (table # tables))))
          else process_all currencies raw_data)"

text \<open>
  The marker that stands for an unknown date in a warning: the Ukrainian string literal
  of the source, as its UTF-8 bytes.
\<close>

definition unknown_date :: pyval where
  "unknown_date = PyStr
     [CHR 0xD0, CHR 0x9D, CHR 0xD0, CHR 0xB5, CHR 0xD0, CHR 0xB2, CHR 0xD1, CHR 0x96,
      CHR 0xD0, CHR 0xB4, CHR 0xD0, CHR 0xBE, CHR 0xD0, CHR 0xBC, CHR 0xD0, CHR 0xB0,
      CHR 0x20, CHR 0xD0, CHR 0xB4, CHR 0xD0, CHR 0xB0, CHR 0xD1, CHR 0x82, CHR 0xD0,
      CHR 0xB0]"

text \<open>\<^verbatim>\<open>data.get("date", marker) if data else marker\<close>\<close>

definition warning_date :: "pyval \<Rightarrow> exn + pyval" where
  "warning_date data =
     (if truthy data then dict_get data ''date'' unknown_date else Inr unknown_date)"

text \<open>The second loop, which prints one warning for each payload without rates.\<close>

fun warn_all :: "pyval list \<Rightarrow> event list \<times> (exn + unit)" where
  "warn_all [] = ([], Inr ())"
| "warn_all (data # raw_data) =
     (case has_rates data of
        Inl e \<Rightarrow> ([], Inl e)
      | Inr b \<Rightarrow>
          if b then warn_all raw_data
          else
            (case warning_date data of
               Inl e \<Rightarrow> ([], Inl e)
             | Inr date \<Rightarrow>
                 (case warn_all raw_data of (trace, r) \<Rightarrow> (Print date # trace, r))))"

text \<open>Everything after \<^verbatim>\<open>await asyncio.gather(*tasks)\<close> has returned.\<close>

definition after_gather :: "string list \<Rightarrow> pyval list \<Rightarrow> event list \<times> (exn + pyval list)" where
  "after_gather currencies raw_data =
     (case process_all currencies raw_data of
        (trace, Inl e) \<Rightarrow> (trace, Inl e)
      | (trace, Inr processed_data) \<Rightarrow>
          (case warn_all raw_data of
             (trace', Inl e) \<Rightarrow> (trace @ trace', Inl e)
           | (trace', Inr u) \<Rightarrow> (trace @ trace', Inr processed_data)))"

text \<open>
  The dates are computed and the fetcher is called in the loop; the requests are
  answered while \<^verbatim>\<open>gather\<close> waits. The value is the list of the possible outcomes
  of the call, each with what was observed before it.
\<close>

definition get_exchange_rates ::
    "env \<Rightarrow> int \<Rightarrow> string list \<Rightarrow> (event list \<times> (exn + pyval list)) list" where
  "get_exchange_rates e days currencies =
     (if days < 1 \<or> days > 10 then [([], Inl (ValueError DaysOutOfRange))]
      else
        let dates = map (\<lambda>i. strftime e (now e i - int i)) [0..<nat days];
            tasks = map (\<lambda>(i, date). fetch_exchange_rate (session e i) date)
                      (enumerate 0 dates)
        in map (\<lambda>joined.
                  case joined of
                    Inl err \<Rightarrow> (map Fetch dates, Inl err)
                  | Inr raw_data \<Rightarrow>
                      (case after_gather currencies raw_data of
                         (trace, r) \<Rightarrow> (map Fetch dates @ trace, r)))
             (gather tasks))"

section \<open>Auxiliary notions and sample data\<close>

text \<open>\<^verbatim>\<open>isinstance(v, dict)\<close>\<close>

fun is_dict :: "pyval \<Rightarrow> bool" where
  "is_dict (PyDict kvs) = True"
| "is_dict v = False"

text \<open>The value of \<^verbatim>\<open>d.get(k)\<close> for a dictionary with the items \<open>kvs\<close>.\<close>

definition field :: "(pyval \<times> pyval) list \<Rightarrow> string \<Rightarrow> pyval" where
  "field kvs k = (case map_of kvs (PyStr k) of None \<Rightarrow> PyNone | Some v \<Rightarrow> v)"

text \<open>Rate entries and payloads in the shape the bank's service answers with.\<close>

definition usd_entry :: pyval where
  "usd_entry = PyDict [(PyStr ''currency'', PyStr ''USD''),
                       (PyStr ''saleRateNB'', PyNum 38.5),
                       (PyStr ''purchaseRateNB'', PyNum 38.0)]"

definition usd_later_entry :: pyval where
  "usd_later_entry = PyDict [(PyStr ''currency'', PyStr ''USD''),
                             (PyStr ''saleRateNB'', PyNum 39.5),
                             (PyStr ''purchaseRateNB'', PyNum 39.0)]"

definition usd_sale_only :: pyval where
  "usd_sale_only = PyDict [(PyStr ''currency'', PyStr ''USD''),
                           (PyStr ''saleRateNB'', PyNum 38.5)]"

definition xyz_entry :: pyval where
  "xyz_entry = PyDict [(PyStr ''currency'', PyStr ''XYZ''),
                       (PyStr ''saleRateNB'', PyNum 1.0),
                       (PyStr ''purchaseRateNB'', PyNum 1.0)]"

definition sample_payload :: pyval where
  "sample_payload = PyDict [(PyStr ''date'', PyStr ''01.01.2024''),
                            (PyStr ''exchangeRate'', PyList [usd_entry, xyz_entry])]"

definition partial_payload :: pyval where
  "partial_payload = PyDict [(PyStr ''date'', PyStr ''01.01.2024''),
                             (PyStr ''exchangeRate'', PyList [xyz_entry, usd_sale_only])]"

definition repeated_payload :: pyval where
  "repeated_payload = PyDict [(PyStr ''date'', PyStr ''01.01.2024''),
                              (PyStr ''exchangeRate'',
                               PyList [usd_entry, xyz_entry, usd_later_entry])]"

definition no_rates_payload :: pyval where
  "no_rates_payload = PyDict [(PyStr ''date'', PyStr ''31.12.2023''),
                              (PyStr ''exchangeRate'', PyList [])]"

text \<open>
  A day on which the clock reads 1 January 2024 (day number 738886) throughout; the
  service has rates for that day, none for the day before, and answers 503 to the third
  request.
\<close>

definition sample_env :: env where
  "sample_env =
     \<lparr> now = (\<lambda>i. 738886),
       strftime = (\<lambda>d. if d = 738886 then ''01.01.2024''
                        else if d = 738885 then ''31.12.2023'' else ''30.12.2023''),
       session = (\<lambda>i url. if i = 0 then Reply 200 (Inr sample_payload)
                          else if i = 1 then Reply 200 (Inr no_rates_payload)
                          else Reply 503 (Inr PyNone)) \<rparr>"

section \<open>Lemmas about the model\<close>

lemma dict_get_Inr: "is_dict v \<Longrightarrow> \<exists>x. dict_get v k d = Inr x"
  by (cases v) (auto split: option.splits)

lemma dict_get_Inl: "\<not> is_dict v \<Longrightarrow> dict_get v k d = Inl AttributeError"
  by (cases v) auto

lemma dict_get_cases: "dict_get v k d = Inl e \<Longrightarrow> \<not> is_dict v \<and> e = AttributeError"
  by (cases v) (auto split: option.splits)


lemma rates_loop_fail: "\<not> list_all is_dict rates \<Longrightarrow> rates_loop cs rates t = Inl AttributeError"
proof (induction rates arbitrary: t)
  case Nil then show ?case by simp
next
  case (Cons r rs)
  show ?case
  proof (cases "is_dict r")
    case True
    then obtain kvs where "r = PyDict kvs" by (cases r) auto
    with Cons show ?thesis by (auto split: option.splits)
  next
    case False
    then show ?thesis by (simp add: dict_get_Inl)
  qed
qed

lemma empty_rates_keys_aux:
  "fst ` set (foldl (\<lambda>d c. AList.update (PyStr c) (PyDict []) d) t cs) = fst ` set t \<union> PyStr ` set cs"
  by (induction cs arbitrary: t) (auto simp: dom_update)

lemma empty_rates_distinct_aux:
  "distinct (map fst t) \<Longrightarrow> distinct (map fst (foldl (\<lambda>d c. AList.update (PyStr c) (PyDict []) d) t cs))"
  by (induction cs arbitrary: t) (auto simp: distinct_update)

lemma empty_rates_vals_aux:
  "\<forall>kv \<in> set t. snd kv = PyDict [] \<Longrightarrow>
   \<forall>kv \<in> set (foldl (\<lambda>d c. AList.update (PyStr c) (PyDict []) d) t cs). snd kv = PyDict []"
proof (induction cs arbitrary: t)
  case Nil then show ?case by simp
next
  case (Cons c cs)
  have "\<forall>kv \<in> set (AList.update (PyStr c) (PyDict []) t). snd kv = PyDict []"
    using Cons.prems by (induction t) (auto split: if_splits)
  then show ?case using Cons.IH by simp
qed

lemma empty_rates_keys: "fst ` set (empty_rates cs) = PyStr ` set cs"
  by (simp add: empty_rates_def empty_rates_keys_aux)

lemma empty_rates_distinct: "distinct (map fst (empty_rates cs))"
  by (simp add: empty_rates_def empty_rates_distinct_aux)

lemma empty_rates_lookup: "c \<in> set cs \<Longrightarrow> map_of (empty_rates cs) (PyStr c) = Some (PyDict [])"
proof -
  assume c: "c \<in> set cs"
  then have "PyStr c \<in> fst ` set (empty_rates cs)" by (simp add: empty_rates_keys)
  then obtain v where kv: "(PyStr c, v) \<in> set (empty_rates cs)" by force
  have "\<forall>kv \<in> set (empty_rates cs). snd kv = PyDict []"
    unfolding empty_rates_def by (rule empty_rates_vals_aux) simp
  with kv have "v = PyDict []" by force
  with kv show ?thesis using empty_rates_distinct by simp
qed

lemma dict_get_field: "dict_get (PyDict kvs) k PyNone = Inr (field kvs k)"
  by (simp add: field_def split: option.splits)

lemma rates_loop_keys:
  "rates_loop cs rates t = Inr t' \<Longrightarrow> PyStr ` set cs \<subseteq> fst ` set t \<Longrightarrow> map fst t' = map fst t"
proof (induction rates arbitrary: t)
  case Nil then show ?case by simp
next
  case (Cons r rs)
  from Cons.prems(1) obtain kvs where r: "r = PyDict kvs"
    by (cases r) auto
  show ?case
  proof (cases "field kvs ''currency'' \<in> PyStr ` set cs")
    case True
    let ?t = "AList.update (field kvs ''currency'') (PyDict [(PyStr ''sale'', field kvs ''saleRateNB''), (PyStr ''purchase'', field kvs ''purchaseRateNB'')]) t"
    from True Cons.prems(2) have k: "map fst ?t = map fst t"
      by (auto simp: update_keys)
    from Cons.prems(1) True r have "rates_loop cs rs ?t = Inr t'"
      by (simp add: dict_get_field del: dict_get.simps)
    moreover have "PyStr ` set cs \<subseteq> fst ` set ?t"
      using k Cons.prems(2) by (metis set_map)
    ultimately have "map fst t' = map fst ?t" by (rule Cons.IH)
    with k show ?thesis by simp
  next
    case False
    with Cons.prems(1) r have "rates_loop cs rs t = Inr t'"
      by (simp add: dict_get_field del: dict_get.simps)
    then show ?thesis using Cons.prems(2) by (rule Cons.IH)
  qed
qed

lemma rates_loop_lookup:
  "rates_loop cs rates t = Inr t' \<Longrightarrow> c \<in> set cs \<Longrightarrow>
   map_of t' (PyStr c) =
     (case filter (\<lambda>r. dict_get r ''currency'' PyNone = Inr (PyStr c)) rates of
        [] \<Rightarrow> map_of t (PyStr c)
      | m # ms \<Rightarrow>
          (case last (m # ms) of
             PyDict kvs \<Rightarrow> Some (PyDict [(PyStr ''sale'', field kvs ''saleRateNB''),
                                           (PyStr ''purchase'', field kvs ''purchaseRateNB'')])
           | _ \<Rightarrow> None))"
proof (induction rates arbitrary: t)
  case Nil then show ?case by simp
next
  case (Cons r rs)
  from Cons.prems(1) obtain kvs where r: "r = PyDict kvs"
    by (cases r) auto
  let ?P = "\<lambda>r. dict_get r ''currency'' PyNone = Inr (PyStr c)"
  let ?new = "PyDict [(PyStr ''sale'', field kvs ''saleRateNB''), (PyStr ''purchase'', field kvs ''purchaseRateNB'')]"
  show ?case
  proof (cases "field kvs ''currency'' \<in> PyStr ` set cs")
    case True
    let ?t = "AList.update (field kvs ''currency'') ?new t"
    from Cons.prems(1) True r have run: "rates_loop cs rs ?t = Inr t'"
      by (simp add: dict_get_field del: dict_get.simps)
    note ih = Cons.IH [OF run Cons.prems(2)]
    show ?thesis
    proof (cases "field kvs ''currency'' = PyStr c")
      case True
      then have Pr: "?P r" using r by (simp add: dict_get_field del: dict_get.simps)
      have upd: "map_of ?t (PyStr c) = Some ?new" using True by (simp add: update_conv')
      show ?thesis
      proof (cases "filter ?P rs")
        case Nil
        then show ?thesis using ih Pr upd r by simp
      next
        case (Cons m ms)
        then show ?thesis using ih Pr by simp
      qed
    next
      case False
      then have Pr: "\<not> ?P r" using r by (simp add: dict_get_field del: dict_get.simps)
      have upd: "map_of ?t (PyStr c) = map_of t (PyStr c)" using False by (simp add: update_conv')
      show ?thesis using ih Pr upd by (simp split: list.splits)
    qed
  next
    case False
    with Cons.prems(1) r have run: "rates_loop cs rs t = Inr t'"
      by (simp add: dict_get_field del: dict_get.simps)
    from False Cons.prems(2) have "field kvs ''currency'' \<noteq> PyStr c" by auto
    then have Pr: "\<not> ?P r" using r by (simp add: dict_get_field del: dict_get.simps)
    show ?thesis using Cons.IH [OF run Cons.prems(2)] Pr by simp
  qed
qed

lemma process_Inr:
  assumes "process_exchange_rates data cs = Inr out"
  shows "\<exists>date er rates table.
           dict_get data ''date'' PyNone = Inr date \<and> hashable date \<and>
           dict_get data ''exchangeRate'' (PyList []) = Inr er \<and>
           py_iter er = Inr rates \<and>
           rates_loop cs rates (empty_rates cs) = Inr table \<and>
           out = PyDict [(date, PyDict table)]"
  using assms unfolding process_exchange_rates_def
  by (auto split: sum.splits if_splits)


lemma table_keys:
  assumes "rates_loop cs rates (empty_rates cs) = Inr table"
  shows "map fst table = map fst (empty_rates cs)"
  using assms by (rule rates_loop_keys) (simp add: empty_rates_keys)

lemma last_matching:
  assumes "rates_loop cs rates (empty_rates cs) = Inr table" and "c \<in> set cs"
    and "filter (\<lambda>r. dict_get r ''currency'' PyNone = Inr (PyStr c)) rates = ms" and "ms \<noteq> []"
  shows "\<exists>kvs. last ms = PyDict kvs \<and>
           map_of table (PyStr c) =
             Some (PyDict [(PyStr ''sale'', field kvs ''saleRateNB''),
                           (PyStr ''purchase'', field kvs ''purchaseRateNB'')])"
proof -
  from assms(3,4) have "last ms \<in> set rates"
    by (metis filter_is_subset last_in_set subsetD)
  moreover have "list_all is_dict rates"
    using assms(1) rates_loop_fail by fastforce
  ultimately have "is_dict (last ms)" by (simp add: list_all_iff)
  then obtain kvs where k: "last ms = PyDict kvs" by (cases "last ms") auto
  from assms(4) obtain m ms' where ms: "ms = m # ms'" by (cases ms) auto
  show ?thesis
    using rates_loop_lookup [OF assms(1,2)] assms(3) k unfolding ms by simp
qed




lemma gather_Inl: "Inl err \<in> set (gather rs) \<Longrightarrow> Inl err \<in> set rs"
proof -
  have "set (failures rs) = {e. Inl e \<in> set rs}" for rs :: "(exn + 'a) list"
    by (induction rs rule: failures.induct) auto
  then show "Inl err \<in> set (gather rs) \<Longrightarrow> Inl err \<in> set rs"
    by (auto simp: gather_def split: if_splits)
qed









lemma warning_date_ok:
  assumes "has_rates d = Inr b"
  shows "\<exists>date. warning_date d = Inr date"
proof (cases "truthy d")
  case False
  then show ?thesis by (simp add: warning_date_def)
next
  case True
  with assms have "is_dict d"
    by (cases d) (auto simp: has_rates_def)
  then show ?thesis using True by (simp add: warning_date_def dict_get_Inr)
qed

lemma warn_all_ok:
  "process_all cs raw = (tr, Inr tables) \<Longrightarrow> snd (warn_all raw) = Inr ()"
proof (induction raw arbitrary: tr tables)
  case Nil then show ?case by simp
next
  case (Cons d raw)
  from Cons.prems obtain b where b: "has_rates d = Inr b"
    by (cases "has_rates d") auto
  from warning_date_ok [OF b] obtain date where wd: "warning_date d = Inr date" ..
  from Cons.prems b obtain tr' tables' where "process_all cs raw = (tr', Inr tables')"
    by (cases "process_all cs raw") (auto split: sum.splits if_splits)
  then have "snd (warn_all raw) = Inr ()" by (rule Cons.IH)
  then show ?case using b wd by (auto split: prod.splits)
qed




lemma fetch_non_200:
  "srv (api_url date) = Reply status body \<Longrightarrow> status \<noteq> 200 \<Longrightarrow>
   fetch_exchange_rate srv date = Inl (ConnectionError (ValueError (BadStatus status)))"
  by (simp add: fetch_exchange_rate_def request_def)

lemma fetch_failure_is_connection_error:
  "fetch_exchange_rate srv date = Inl err \<Longrightarrow> \<exists>cause. err = ConnectionError cause"
  by (auto simp: fetch_exchange_rate_def split: sum.splits)

section \<open>The claims of the specification\<close>

text \<open>
  Claim C1, evaluated on the code. Three days are requested; the first two requests are
  answered with status 200 and the third with status 503. The only outcome of the call
  is a \<^verbatim>\<open>ConnectionError\<close> that wraps the \<^verbatim>\<open>ValueError\<close> of the status, after
  the three calls of the fetcher and without any table: the batch fails as a whole, but
  with the error kind of a transport failure.
\<close>

theorem batch_with_503_raises_connection_error:
  "get_exchange_rates sample_env 3 [''USD'']
   = [([Fetch ''01.01.2024'', Fetch ''31.12.2023'', Fetch ''30.12.2023''],
       Inl (ConnectionError (ValueError (BadStatus 503))))]"
  by (simp add: get_exchange_rates_def sample_env_def gather_def fetch_exchange_rate_def
      request_def enumerate_eq_zip upt_rec [of 0 "Suc (Suc (Suc 0))"] upt_rec [of "Suc 0"]
      upt_rec [of "Suc (Suc 0)"] eval_nat_numeral)

text \<open>
  Claim C2, as the code has it. When the processor returns, an entry whose currency is
  requested and that no later entry for the same currency follows is a dictionary, and the
  output record of that currency has both keys: \<open>sale\<close> holds the entry's
  \<open>saleRateNB\<close> and \<open>purchase\<close> its \<open>purchaseRateNB\<close>, each copied as it
  is, and each \<^verbatim>\<open>None\<close> when the entry lacks the field.
\<close>

theorem process_copies_rate_fields:
  assumes "process_exchange_rates data cs = Inr out"
    and "dict_get data ''exchangeRate'' (PyList []) = Inr (PyList (before @ rate # after))"
    and "dict_get rate ''currency'' PyNone = Inr (PyStr c)"
    and "c \<in> set cs"
    and "\<forall>r \<in> set after. dict_get r ''currency'' PyNone \<noteq> Inr (PyStr c)"
  shows "\<exists>date table kvs. out = PyDict [(date, PyDict table)] \<and> rate = PyDict kvs \<and>
           map_of table (PyStr c) =
             Some (PyDict
               [(PyStr ''sale'',
                   case map_of kvs (PyStr ''saleRateNB'') of None \<Rightarrow> PyNone | Some v \<Rightarrow> v),
                (PyStr ''purchase'',
                   case map_of kvs (PyStr ''purchaseRateNB'') of None \<Rightarrow> PyNone | Some v \<Rightarrow> v)])"
proof -
  let ?P = "\<lambda>r. dict_get r ''currency'' PyNone = Inr (PyStr c)"
  from process_Inr [OF assms(1)] assms(2) obtain date table where
    loop: "rates_loop cs (before @ rate # after) (empty_rates cs) = Inr table"
    and out: "out = PyDict [(date, PyDict table)]"
    by auto
  from assms(5) have "filter ?P after = []" by (simp add: filter_empty_conv)
  with assms(3) have f: "filter ?P (before @ rate # after) = filter ?P before @ [rate]"
    by simp
  from last_matching [OF loop assms(4) f] obtain kvs where
    "rate = PyDict kvs"
    "map_of table (PyStr c) =
       Some (PyDict [(PyStr ''sale'', field kvs ''saleRateNB''),
                     (PyStr ''purchase'', field kvs ''purchaseRateNB'')])"
    by auto
  with out show ?thesis unfolding field_def by blast
qed

theorem process_copies_rate_fields_witness:
  "process_exchange_rates partial_payload [''USD'', ''EUR'']
     = Inr (PyDict [(PyStr ''01.01.2024'',
                     PyDict [(PyStr ''USD'', PyDict [(PyStr ''sale'', PyNum 38.5),
                                                     (PyStr ''purchase'', PyNone)]),
                             (PyStr ''EUR'', PyDict [])])]) \<and>
   dict_get partial_payload ''exchangeRate'' (PyList [])
     = Inr (PyList ([xyz_entry] @ usd_sale_only # [])) \<and>
   dict_get usd_sale_only ''currency'' PyNone = Inr (PyStr ''USD'') \<and>
   ''USD'' \<in> set [''USD'', ''EUR''] \<and>
   (\<exists>date table kvs.
      PyDict [(PyStr ''01.01.2024'',
               PyDict [(PyStr ''USD'', PyDict [(PyStr ''sale'', PyNum 38.5),
                                               (PyStr ''purchase'', PyNone)]),
                       (PyStr ''EUR'', PyDict [])])] = PyDict [(date, PyDict table)] \<and>
      usd_sale_only = PyDict kvs \<and>
      map_of table (PyStr ''USD'') =
        Some (PyDict
          [(PyStr ''sale'',
              case map_of kvs (PyStr ''saleRateNB'') of None \<Rightarrow> PyNone | Some v \<Rightarrow> v),
           (PyStr ''purchase'',
              case map_of kvs (PyStr ''purchaseRateNB'') of None \<Rightarrow> PyNone | Some v \<Rightarrow> v)]))"
proof -
  have h1: "process_exchange_rates partial_payload [''USD'', ''EUR'']
     = Inr (PyDict [(PyStr ''01.01.2024'',
                     PyDict [(PyStr ''USD'', PyDict [(PyStr ''sale'', PyNum 38.5),
                                                     (PyStr ''purchase'', PyNone)]),
                             (PyStr ''EUR'', PyDict [])])])"
    by (simp add: process_exchange_rates_def empty_rates_def partial_payload_def
        xyz_entry_def usd_sale_only_def)
  have h2: "dict_get partial_payload ''exchangeRate'' (PyList [])
     = Inr (PyList ([xyz_entry] @ usd_sale_only # []))"
    by (simp add: partial_payload_def)
  have h3: "dict_get usd_sale_only ''currency'' PyNone = Inr (PyStr ''USD'')"
    by (simp add: usd_sale_only_def)
  have h4: "''USD'' \<in> set [''USD'', ''EUR'']" by simp
  have h5: "\<forall>r \<in> set []. dict_get r ''currency'' PyNone \<noteq> Inr (PyStr ''USD'')" by simp
  note c = process_copies_rate_fields [OF h1 h2 h3 h4 h5]
  from h1 h2 h3 h4 c show ?thesis by (intro conjI)
qed

text \<open>
  The claim as the specification words it fails: an entry without
  \<open>purchaseRateNB\<close> gives a record in which \<open>purchase\<close> is present with the value
  \<^verbatim>\<open>None\<close>, and not a record with the key left out.
\<close>

theorem missing_field_not_absent:
  "process_exchange_rates
     (PyDict [(PyStr ''date'', PyStr ''01.01.2024''),
              (PyStr ''exchangeRate'',
               PyList [PyDict [(PyStr ''currency'', PyStr ''USD''),
                               (PyStr ''saleRateNB'', PyNum 38.5)]])])
     [''USD'']
   = Inr (PyDict [(PyStr ''01.01.2024'',
                   PyDict [(PyStr ''USD'', PyDict [(PyStr ''sale'', PyNum 38.5),
                                                   (PyStr ''purchase'', PyNone)])])]) \<and>
   process_exchange_rates
     (PyDict [(PyStr ''date'', PyStr ''01.01.2024''),
              (PyStr ''exchangeRate'',
               PyList [PyDict [(PyStr ''currency'', PyStr ''USD''),
                               (PyStr ''saleRateNB'', PyNum 38.5)]])])
     [''USD'']
   \<noteq> Inr (PyDict [(PyStr ''01.01.2024'',
                   PyDict [(PyStr ''USD'', PyDict [(PyStr ''sale'', PyNum 38.5)])])])"
  by (simp add: process_exchange_rates_def empty_rates_def)

text \<open>
  Claim C3. For every number of days below 1 or above 10 and every currency list, the
  call has one outcome: the \<^verbatim>\<open>ValueError\<close> of the validation, with nothing observed
  before it, so no call of the fetcher.
\<close>

theorem days_out_of_range_no_fetch: "days < 1 \<or> 10 < days \<Longrightarrow> get_exchange_rates e days cs = [([], Inl (ValueError DaysOutOfRange))]"
  by (auto simp: get_exchange_rates_def)

theorem days_out_of_range_no_fetch_witness:
  "((0::int) < 1 \<or> 10 < (0::int)) \<and> ((11::int) < 1 \<or> 10 < (11::int)) \<and>
   get_exchange_rates sample_env 0 [''USD''] = [([], Inl (ValueError DaysOutOfRange))] \<and>
   get_exchange_rates sample_env 11 [''USD''] = [([], Inl (ValueError DaysOutOfRange))]"
proof -
  have h0: "(0::int) < 1 \<or> 10 < (0::int)" by simp
  have h11: "(11::int) < 1 \<or> 10 < (11::int)" by simp
  from h0 h11 days_out_of_range_no_fetch [OF h0, of sample_env "[''USD'']"]
    days_out_of_range_no_fetch [OF h11, of sample_env "[''USD'']"]
  show ?thesis by (intro conjI)
qed

text \<open>
  Claim C4. In every table the processor produces, the keys of the currency mapping are
  exactly the requested codes, each once: a requested code without an entry in the
  payload is mapped to the empty record, and no other code of the payload appears.
\<close>

theorem table_keys_are_requested:
  assumes "process_exchange_rates data cs = Inr out"
  shows "\<exists>date er rates table.
           out = PyDict [(date, PyDict table)] \<and>
           dict_get data ''exchangeRate'' (PyList []) = Inr er \<and> py_iter er = Inr rates \<and>
           fst ` set table = PyStr ` set cs \<and> distinct (map fst table) \<and>
           (\<forall>c \<in> set cs.
              (\<forall>r \<in> set rates. dict_get r ''currency'' PyNone \<noteq> Inr (PyStr c)) \<longrightarrow>
              map_of table (PyStr c) = Some (PyDict []))"
proof -
  from process_Inr [OF assms] obtain date er rates table where
    er: "dict_get data ''exchangeRate'' (PyList []) = Inr er" and it: "py_iter er = Inr rates"
    and loop: "rates_loop cs rates (empty_rates cs) = Inr table"
    and out: "out = PyDict [(date, PyDict table)]"
    by blast
  have keys: "map fst table = map fst (empty_rates cs)" using loop by (rule table_keys)
  have k1: "fst ` set table = PyStr ` set cs"
    using keys empty_rates_keys by (metis set_map)
  have k2: "distinct (map fst table)" using keys empty_rates_distinct by simp
  have k3: "map_of table (PyStr c) = Some (PyDict [])"
    if c: "c \<in> set cs" and no: "\<forall>r \<in> set rates. dict_get r ''currency'' PyNone \<noteq> Inr (PyStr c)" for c
  proof -
    from no have "filter (\<lambda>r. dict_get r ''currency'' PyNone = Inr (PyStr c)) rates = []"
      by (simp add: filter_empty_conv)
    then show ?thesis
      using rates_loop_lookup [OF loop c] empty_rates_lookup [OF c] by simp
  qed
  show ?thesis using out er it k1 k2 k3 by blast
qed

theorem table_keys_are_requested_witness:
  "process_exchange_rates sample_payload [''USD'', ''EUR'']
     = Inr (PyDict [(PyStr ''01.01.2024'',
                     PyDict [(PyStr ''USD'', PyDict [(PyStr ''sale'', PyNum 38.5),
                                                     (PyStr ''purchase'', PyNum 38.0)]),
                             (PyStr ''EUR'', PyDict [])])]) \<and>
   (\<exists>table. fst ` set table = PyStr ` set [''USD'', ''EUR''] \<and>
      PyDict [(PyStr ''01.01.2024'',
               PyDict [(PyStr ''USD'', PyDict [(PyStr ''sale'', PyNum 38.5),
                                               (PyStr ''purchase'', PyNum 38.0)]),
                       (PyStr ''EUR'', PyDict [])])]
        = PyDict [(PyStr ''01.01.2024'', PyDict table)] \<and>
      map_of table (PyStr ''EUR'') = Some (PyDict []) \<and>
      map_of table (PyStr ''XYZ'') = None)"
proof -
  have h1: "process_exchange_rates sample_payload [''USD'', ''EUR'']
     = Inr (PyDict [(PyStr ''01.01.2024'',
                     PyDict [(PyStr ''USD'', PyDict [(PyStr ''sale'', PyNum 38.5),
                                                     (PyStr ''purchase'', PyNum 38.0)]),
                             (PyStr ''EUR'', PyDict [])])])"
    by (simp add: process_exchange_rates_def empty_rates_def sample_payload_def
        usd_entry_def xyz_entry_def)
  from table_keys_are_requested [OF h1] obtain date table where
    "PyDict [(PyStr ''01.01.2024'',
               PyDict [(PyStr ''USD'', PyDict [(PyStr ''sale'', PyNum 38.5),
                                               (PyStr ''purchase'', PyNum 38.0)]),
                       (PyStr ''EUR'', PyDict [])])] = PyDict [(date, PyDict table)]"
    and "fst ` set table = PyStr ` set [''USD'', ''EUR'']"
    by blast
  then show ?thesis using h1 by auto
qed








text \<open>
  Claim C8. For the payload of 1 January 2024 with a USD entry (sale 38.5, purchase 38.0)
  and an XYZ entry, and the requested currencies USD and EUR, the processor returns
  exactly the table with the single date 01.01.2024, the USD rates copied and an empty
  record for EUR.
\<close>

theorem round_trip_example:
  "process_exchange_rates
     (PyDict [(PyStr ''date'', PyStr ''01.01.2024''),
              (PyStr ''exchangeRate'',
               PyList [PyDict [(PyStr ''currency'', PyStr ''USD''),
                               (PyStr ''saleRateNB'', PyNum 38.5),
                               (PyStr ''purchaseRateNB'', PyNum 38.0)],
                       PyDict [(PyStr ''currency'', PyStr ''XYZ''),
                               (PyStr ''saleRateNB'', PyNum 1.0),
                               (PyStr ''purchaseRateNB'', PyNum 1.0)]])])
     [''USD'', ''EUR'']
   = Inr (PyDict [(PyStr ''01.01.2024'',
                   PyDict [(PyStr ''USD'', PyDict [(PyStr ''sale'', PyNum 38.5),
                                                   (PyStr ''purchase'', PyNum 38.0)]),
                           (PyStr ''EUR'', PyDict [])])])"
  by (simp add: process_exchange_rates_def empty_rates_def)



text \<open>
  Claim C10. When the processor returns and the rate entries contain one or more entries
  with the requested currency code \<open>c\<close>, the output record of \<open>c\<close> is the one built
  from the last of them in the order of the sequence.
\<close>

theorem last_entry_wins:
  assumes "process_exchange_rates data cs = Inr out"
    and "dict_get data ''exchangeRate'' (PyList []) = Inr (PyList rates)"
    and "c \<in> set cs"
    and "filter (\<lambda>r. dict_get r ''currency'' PyNone = Inr (PyStr c)) rates = ms"
    and "ms \<noteq> []"
  shows "\<exists>date table sale purchase. out = PyDict [(date, PyDict table)] \<and>
           dict_get (last ms) ''saleRateNB'' PyNone = Inr sale \<and>
           dict_get (last ms) ''purchaseRateNB'' PyNone = Inr purchase \<and>
           map_of table (PyStr c) =
             Some (PyDict [(PyStr ''sale'', sale), (PyStr ''purchase'', purchase)])"
proof -
  from process_Inr [OF assms(1)] assms(2) obtain date table where
    loop: "rates_loop cs rates (empty_rates cs) = Inr table"
    and out: "out = PyDict [(date, PyDict table)]"
    by auto
  from last_matching [OF loop assms(3,4,5)] obtain kvs where
    k: "last ms = PyDict kvs"
    and m: "map_of table (PyStr c) =
       Some (PyDict [(PyStr ''sale'', field kvs ''saleRateNB''),
                     (PyStr ''purchase'', field kvs ''purchaseRateNB'')])"
    by auto
  show ?thesis using out m unfolding k dict_get_field by blast
qed

theorem last_entry_wins_witness:
  "process_exchange_rates repeated_payload [''USD'']
     = Inr (PyDict [(PyStr ''01.01.2024'',
                     PyDict [(PyStr ''USD'', PyDict [(PyStr ''sale'', PyNum 39.5),
                                                     (PyStr ''purchase'', PyNum 39.0)])])]) \<and>
   filter (\<lambda>r. dict_get r ''currency'' PyNone = Inr (PyStr ''USD''))
     [usd_entry, xyz_entry, usd_later_entry] = [usd_entry, usd_later_entry] \<and>
   (\<exists>date table sale purchase.
      PyDict [(PyStr ''01.01.2024'',
               PyDict [(PyStr ''USD'', PyDict [(PyStr ''sale'', PyNum 39.5),
                                               (PyStr ''purchase'', PyNum 39.0)])])]
        = PyDict [(date, PyDict table)] \<and>
      dict_get (last [usd_entry, usd_later_entry]) ''saleRateNB'' PyNone = Inr sale \<and>
      dict_get (last [usd_entry, usd_later_entry]) ''purchaseRateNB'' PyNone = Inr purchase \<and>
      map_of table (PyStr ''USD'') =
        Some (PyDict [(PyStr ''sale'', sale), (PyStr ''purchase'', purchase)]))"
proof -
  have h1: "process_exchange_rates repeated_payload [''USD'']
     = Inr (PyDict [(PyStr ''01.01.2024'',
                     PyDict [(PyStr ''USD'', PyDict [(PyStr ''sale'', PyNum 39.5),
                                                     (PyStr ''purchase'', PyNum 39.0)])])])"
    by (simp add: process_exchange_rates_def empty_rates_def repeated_payload_def
        usd_entry_def xyz_entry_def usd_later_entry_def)
  have h2: "dict_get repeated_payload ''exchangeRate'' (PyList [])
     = Inr (PyList [usd_entry, xyz_entry, usd_later_entry])"
    by (simp add: repeated_payload_def)
  have h3: "''USD'' \<in> set [''USD'']" by simp
  have h4: "filter (\<lambda>r. dict_get r ''currency'' PyNone = Inr (PyStr ''USD''))
     [usd_entry, xyz_entry, usd_later_entry] = [usd_entry, usd_later_entry]"
    by (simp add: usd_entry_def xyz_entry_def usd_later_entry_def)
  have h5: "[usd_entry, usd_later_entry] \<noteq> []" by simp
  note c = last_entry_wins [OF h1 h2 h3 h4 h5]
  from h1 h4 c show ?thesis by (intro conjI)
qed

end
